theory Spec2Isabelle
  imports Main
begin

section \<open>Endpoint identifiers: pkg/endpoint/identifiers.go\<close>

text \<open>
  A shallow embedding of the identifier accessors of the endpoint record. A Go string is a
  sequence of bytes, \<open>len\<close> counts bytes and \<open>s[:n]\<close> cuts at a byte offset; a HOL
  \<open>string\<close> is a list of 8-bit characters, so \<open>length\<close>, \<open>take\<close> and \<open>@\<close> are
  Go's \<open>len\<close>, prefix slice and \<open>+\<close>.
\<close>

subsection \<open>Data model\<close>

text \<open>
  \<open>netip.Addr\<close> belongs to Go's standard library. The code observes an address only
  through \<open>IsValid()\<close> and \<open>String()\<close>; the record carries what the two calls return.
\<close>

record Addr =
  IsValid :: bool
  AddrString :: string

text \<open>
  Modelled from the spec: the package \<open>id\<close> (the type \<open>id.Identifiers\<close> and the prefix
  constants \<open>id.CNIAttachmentIdPrefix\<close>, ...) is not under src. Section 3 of the
  specification gives the keys as a fixed closed set of eight distinct namespace prefixes,
  and the mapping as one string per key at most.
\<close>

datatype PrefixType =
    CNIAttachmentIdPrefix
  | ContainerIdPrefix
  | DockerEndpointPrefix
  | IPv4Prefix
  | IPv6Prefix
  | ContainerNamePrefix
  | PodNamePrefix
  | CEPNamePrefix

type_synonym id_Identifiers = "PrefixType \<rightharpoonup> string"

text \<open>
  Modelled from the spec: the liveness of an endpoint (section 4.1) has the two states
  alive and not-alive; it is owned by code that is not under src.
\<close>

datatype Liveness = Alive | NotAlive

text \<open>
  The struct \<open>Endpoint\<close> is declared outside src; the record has the fields that
  identifiers.go reads or writes, under their Go names, the numeric \<open>ID\<close> behind
  \<open>StringID()\<close>, and the liveness that \<open>rlockAlive()\<close> observes.
\<close>

record Endpoint =
  ID :: nat
  containerID :: string
  containerIfName :: string
  containerName :: string
  dockerEndpointID :: string
  K8sNamespace :: string
  K8sPodName :: string
  IPv4 :: Addr
  IPv6 :: Addr
  ciliumEndpointUID :: string
  disableLegacyIdentifiers :: bool
  liveness :: Liveness

text \<open>
  The one error value of this file, and the run-time panics its expressions can raise: a
  slice bound out of range, and a method that reaches into the record through a nil
  reference.
\<close>

datatype error = EndpointNotAlive

datatype panic = SliceBoundsOutOfRange | NilPointerDereference

subsection \<open>Helpers that are not under src\<close>

text \<open>
  Modelled from the spec: \<open>StringID()\<close> is not under src. Section 4.2 calls it the
  fallback stable identifier, the numeric ID of the endpoint as a string: the decimal
  digits of \<open>ID\<close>.
\<close>

definition digit :: "nat \<Rightarrow> char" where
  "digit d = char_of (48 + d)"

function decimal :: "nat \<Rightarrow> string" where
  "decimal n = (if n < 10 then [digit n] else decimal (n div 10) @ [digit (n mod 10)])"
  by pat_completeness auto
termination
  by (relation "measure id") auto

declare decimal.simps [simp del]

definition StringID :: "Endpoint \<Rightarrow> string" where
  "StringID e = decimal (ID e)"

text \<open>
  Modelled from the spec: \<open>rlockAlive()\<close> is not under src. Section 4.1
  (\<open>acquireSharedIfAlive\<close>): the shared acquisition succeeds only in the state alive, and
  fails with the condition "endpoint not alive" instead of acquiring otherwise. The result
  is Go's \<open>error\<close>: \<open>None\<close> is \<open>nil\<close>.

  \<open>unconditionalRLock\<close>, \<open>runlock\<close>, \<open>unconditionalLock\<close> and \<open>unlock\<close> are not
  under src either. By section 4.1 they never fail on a record that exists, and they leave
  every field of the record as it is, so an accessor that brackets a read with them is the
  read itself on the field snapshot.
\<close>

text \<open>
  Modelled from the spec: \<open>unconditionalRLock()\<close> on a reference. Section 2 makes the
  guard an acquisition over the endpoint record: the lock is part of the record, so the
  acquisition reaches into the record through the reference, and through a nil reference
  that is Go's nil pointer dereference. On a valid reference it never fails (sections 4.1
  and 7) and changes no field.
\<close>

definition unconditionalRLock :: "Endpoint option \<Rightarrow> panic + unit" where
  "unconditionalRLock p =
     (case p of None \<Rightarrow> Inl NilPointerDereference | Some e \<Rightarrow> Inr ())"

definition rlockAlive :: "Endpoint \<Rightarrow> error option" where
  "rlockAlive e = (if liveness e = Alive then None else Some EndpointNotAlive)"

text \<open>
  Go's slice expression \<open>s[:n]\<close> panics when \<open>n\<close> exceeds \<open>len(s)\<close>.
\<close>

definition slice_to :: "string \<Rightarrow> nat \<Rightarrow> panic + string" where
  "slice_to s n = (if n \<le> length s then Inr (take n s) else Inl SliceBoundsOutOfRange)"

subsection \<open>The accessors\<close>

definition GetContainerName :: "Endpoint \<Rightarrow> string" where
  "GetContainerName e = containerName e"

definition GetK8sPodName :: "Endpoint \<Rightarrow> string" where
  "GetK8sPodName e = (let k8sPodName = K8sPodName e in k8sPodName)"

definition GetK8sNamespaceAndPodName :: "Endpoint \<Rightarrow> string" where
  "GetK8sNamespaceAndPodName e = K8sNamespace e @ ''/'' @ K8sPodName e"

definition GetK8sCEPName :: "Endpoint \<Rightarrow> string" where
  "GetK8sCEPName e =
     (if disableLegacyIdentifiers e \<and> K8sPodName e \<noteq> [] \<and> containerIfName e \<noteq> []
      then K8sPodName e @ ''-'' @ containerIfName e
      else K8sPodName e)"

definition GetK8sNamespaceAndCEPName :: "Endpoint \<Rightarrow> string" where
  "GetK8sNamespaceAndCEPName e = K8sNamespace e @ ''/'' @ GetK8sCEPName e"

definition HumanString :: "Endpoint \<Rightarrow> string" where
  "HumanString e =
     (let cep = GetK8sNamespaceAndCEPName e in
      if cep \<noteq> [] then cep else StringID e)"

definition getCNIAttachmentIDLocked :: "Endpoint \<Rightarrow> string" where
  "getCNIAttachmentIDLocked e =
     (if containerIfName e \<noteq> [] then containerID e @ '':'' @ containerIfName e
      else containerID e)"

definition GetCNIAttachmentID :: "Endpoint \<Rightarrow> string" where
  "GetCNIAttachmentID e = getCNIAttachmentIDLocked e"

definition GetContainerID :: "Endpoint \<Rightarrow> string" where
  "GetContainerID e = (let cID = containerID e in cID)"

text \<open>
  \<open>getShortContainerIDLocked\<close> is the one method that tests its receiver against
  \<open>nil\<close>, so it takes the reference: \<open>None\<close> is the nil pointer. The public
  \<open>GetShortContainerID\<close> takes the reference too: it acquires the lock through it
  (line 90) before it calls \<open>getShortContainerIDLocked\<close>, whose nil test (line 96) a
  nil reference therefore never reaches. The other accessors read a field of the receiver
  in every path and are modelled on a record that exists.
\<close>

definition getShortContainerIDLocked :: "Endpoint option \<Rightarrow> panic + string" where
  "getShortContainerIDLocked p =
     (case p of
        None \<Rightarrow> Inr []
      | Some e \<Rightarrow>
          (let cid = containerID e;
               caplen = 10
           in if length cid \<le> caplen then Inr cid else slice_to cid caplen))"

definition GetShortContainerID :: "Endpoint option \<Rightarrow> panic + string" where
  "GetShortContainerID p =
     (case unconditionalRLock p of
        Inl pn \<Rightarrow> Inl pn
      | Inr _ \<Rightarrow> getShortContainerIDLocked p)"

definition GetDockerEndpointID :: "Endpoint \<Rightarrow> string" where
  "GetDockerEndpointID e = dockerEndpointID e"

definition IdentifiersLocked :: "Endpoint \<Rightarrow> id_Identifiers" where
  "IdentifiersLocked e =
     (let refs = Map.empty;
          cniID = getCNIAttachmentIDLocked e;
          refs = (if cniID \<noteq> [] then refs(CNIAttachmentIdPrefix \<mapsto> cniID) else refs);
          refs = (if \<not> disableLegacyIdentifiers e \<and> containerID e \<noteq> []
                  then refs(ContainerIdPrefix \<mapsto> containerID e) else refs);
          refs = (if dockerEndpointID e \<noteq> []
                  then refs(DockerEndpointPrefix \<mapsto> dockerEndpointID e) else refs);
          refs = (if IsValid (IPv4 e)
                  then refs(IPv4Prefix \<mapsto> AddrString (IPv4 e)) else refs);
          refs = (if IsValid (IPv6 e)
                  then refs(IPv6Prefix \<mapsto> AddrString (IPv6 e)) else refs);
          refs = (if \<not> disableLegacyIdentifiers e \<and> containerName e \<noteq> []
                  then refs(ContainerNamePrefix \<mapsto> containerName e) else refs);
          podName = GetK8sNamespaceAndPodName e;
          refs = (if \<not> disableLegacyIdentifiers e \<and> podName \<noteq> []
                  then refs(PodNamePrefix \<mapsto> podName) else refs);
          cepName = GetK8sNamespaceAndCEPName e;
          refs = (if cepName \<noteq> [] then refs(CEPNamePrefix \<mapsto> cepName) else refs)
      in refs)"

text \<open>
  \<open>Identifiers\<close> returns Go's pair \<open>(id.Identifiers, error)\<close>: \<open>None\<close> in the first
  component is the nil map, \<open>None\<close> in the second the nil error.
\<close>

definition Identifiers :: "Endpoint \<Rightarrow> id_Identifiers option \<times> error option" where
  "Identifiers e =
     (case rlockAlive e of
        Some err \<Rightarrow> (None, Some err)
      | None \<Rightarrow> (Some (IdentifiersLocked e), None))"

definition GetCiliumEndpointUID :: "Endpoint \<Rightarrow> string" where
  "GetCiliumEndpointUID e = ciliumEndpointUID e"

definition SetCiliumEndpointUID :: "Endpoint \<Rightarrow> string \<Rightarrow> Endpoint" where
  "SetCiliumEndpointUID e uid = e\<lparr>ciliumEndpointUID := uid\<rparr>"

subsection \<open>Sample endpoints\<close>

definition invalidAddr :: Addr where
  "invalidAddr = \<lparr>IsValid = False, AddrString = ''invalid IP''\<rparr>"

text \<open>The endpoint of the example in section 8 of the specification.\<close>

definition cniEndpoint :: Endpoint where
  "cniEndpoint =
     \<lparr>ID = 0, containerID = ''abcdefghijklmnop'', containerIfName = ''eth0'',
      containerName = [], dockerEndpointID = [], K8sNamespace = ''ns1'',
      K8sPodName = ''pod1'', IPv4 = invalidAddr, IPv6 = invalidAddr,
      ciliumEndpointUID = [], disableLegacyIdentifiers = True, liveness = Alive\<rparr>"

text \<open>An endpoint with every identifier populated and the legacy identifiers enabled.\<close>

definition legacyEndpoint :: Endpoint where
  "legacyEndpoint =
     \<lparr>ID = 42, containerID = ''c0ffee'', containerIfName = [],
      containerName = ''web'', dockerEndpointID = ''dock1'', K8sNamespace = ''default'',
      K8sPodName = ''web-0'',
      IPv4 = \<lparr>IsValid = True, AddrString = ''10.0.0.7''\<rparr>,
      IPv6 = \<lparr>IsValid = True, AddrString = ''fd00::7''\<rparr>,
      ciliumEndpointUID = ''uid-1'', disableLegacyIdentifiers = False, liveness = Alive\<rparr>"

text \<open>An endpoint with no field set, already deleted.\<close>

definition blankEndpoint :: Endpoint where
  "blankEndpoint =
     \<lparr>ID = 7, containerID = [], containerIfName = [],
      containerName = [], dockerEndpointID = [], K8sNamespace = [],
      K8sPodName = [], IPv4 = invalidAddr, IPv6 = invalidAddr,
      ciliumEndpointUID = [], disableLegacyIdentifiers = False, liveness = NotAlive\<rparr>"

text \<open>
  An endpoint with every identifier populated, an interface name, and the legacy
  identifiers disabled.
\<close>

definition attachmentEndpoint :: Endpoint where
  "attachmentEndpoint =
     \<lparr>ID = 9, containerID = ''0123456789abcdef'', containerIfName = ''net1'',
      containerName = ''db'', dockerEndpointID = ''dock2'', K8sNamespace = ''prod'',
      K8sPodName = ''db-0'',
      IPv4 = \<lparr>IsValid = True, AddrString = ''10.0.0.9''\<rparr>,
      IPv6 = invalidAddr,
      ciliumEndpointUID = ''uid-2'', disableLegacyIdentifiers = True, liveness = Alive\<rparr>"

section \<open>Properties\<close>

subsection \<open>Shared facts\<close>

lemma IdentifiersLocked_lookup:
  "IdentifiersLocked e k =
     (case k of
        CNIAttachmentIdPrefix \<Rightarrow>
          if getCNIAttachmentIDLocked e \<noteq> [] then Some (getCNIAttachmentIDLocked e) else None
      | ContainerIdPrefix \<Rightarrow>
          if \<not> disableLegacyIdentifiers e \<and> containerID e \<noteq> []
          then Some (containerID e) else None
      | DockerEndpointPrefix \<Rightarrow>
          if dockerEndpointID e \<noteq> [] then Some (dockerEndpointID e) else None
      | IPv4Prefix \<Rightarrow> if IsValid (IPv4 e) then Some (AddrString (IPv4 e)) else None
      | IPv6Prefix \<Rightarrow> if IsValid (IPv6 e) then Some (AddrString (IPv6 e)) else None
      | ContainerNamePrefix \<Rightarrow>
          if \<not> disableLegacyIdentifiers e \<and> containerName e \<noteq> []
          then Some (containerName e) else None
      | PodNamePrefix \<Rightarrow>
          if \<not> disableLegacyIdentifiers e \<and> GetK8sNamespaceAndPodName e \<noteq> []
          then Some (GetK8sNamespaceAndPodName e) else None
      | CEPNamePrefix \<Rightarrow>
          if GetK8sNamespaceAndCEPName e \<noteq> []
          then Some (GetK8sNamespaceAndCEPName e) else None)"
  by (cases k) (simp_all add: IdentifiersLocked_def Let_def)

subsection \<open>The aggregate identifier map\<close>

text \<open>
  C1. For every field snapshot and every key \<open>k\<close>, the map of \<open>IdentifiersLocked\<close> has
  the key exactly when its inclusion rule holds: CNIAttachmentId iff the CNI attachment ID is
  non-empty; ContainerId iff the legacy identifiers are not disabled and \<open>containerID\<close> is
  non-empty; DockerEndpoint iff \<open>dockerEndpointID\<close> is non-empty; IPv4 and IPv6 iff the
  address is valid; ContainerName iff legacy is not disabled and \<open>containerName\<close> is
  non-empty; PodName iff legacy is not disabled and the namespaced pod name is non-empty;
  CEPName iff the namespaced CEP name is non-empty. As \<open>k\<close> ranges over every key, the
  map has no other key.
\<close>

theorem IdentifiersLocked_keys:
  "k \<in> dom (IdentifiersLocked e) \<longleftrightarrow>
     (case k of
        CNIAttachmentIdPrefix \<Rightarrow> getCNIAttachmentIDLocked e \<noteq> []
      | ContainerIdPrefix \<Rightarrow> \<not> disableLegacyIdentifiers e \<and> containerID e \<noteq> []
      | DockerEndpointPrefix \<Rightarrow> dockerEndpointID e \<noteq> []
      | IPv4Prefix \<Rightarrow> IsValid (IPv4 e)
      | IPv6Prefix \<Rightarrow> IsValid (IPv6 e)
      | ContainerNamePrefix \<Rightarrow> \<not> disableLegacyIdentifiers e \<and> containerName e \<noteq> []
      | PodNamePrefix \<Rightarrow>
          \<not> disableLegacyIdentifiers e \<and> GetK8sNamespaceAndPodName e \<noteq> []
      | CEPNamePrefix \<Rightarrow> GetK8sNamespaceAndCEPName e \<noteq> [])"
  by (cases k) (simp_all add: dom_def IdentifiersLocked_lookup)

theorem IdentifiersLocked_keys_witness:
  "dom (IdentifiersLocked attachmentEndpoint) =
     {CNIAttachmentIdPrefix, DockerEndpointPrefix, IPv4Prefix, CEPNamePrefix}"
proof -
  have "k \<in> dom (IdentifiersLocked attachmentEndpoint) \<longleftrightarrow>
        k \<in> {CNIAttachmentIdPrefix, DockerEndpointPrefix, IPv4Prefix, CEPNamePrefix}" for k
    using IdentifiersLocked_keys [of k attachmentEndpoint]
    by (cases k)
       (simp_all add: attachmentEndpoint_def invalidAddr_def getCNIAttachmentIDLocked_def
          GetK8sNamespaceAndPodName_def GetK8sNamespaceAndCEPName_def)
  then show ?thesis by blast
qed

text \<open>
  C3. With \<open>disableLegacyIdentifiers\<close> set, the map of \<open>IdentifiersLocked\<close> has none of
  the keys ContainerId, ContainerName and PodName, whatever \<open>containerID\<close>,
  \<open>containerName\<close>, \<open>K8sNamespace\<close> and \<open>K8sPodName\<close> hold.
\<close>

theorem legacy_disabled_hides_legacy_keys:
  "disableLegacyIdentifiers e \<Longrightarrow>
     ContainerIdPrefix \<notin> dom (IdentifiersLocked e)
   \<and> ContainerNamePrefix \<notin> dom (IdentifiersLocked e)
   \<and> PodNamePrefix \<notin> dom (IdentifiersLocked e)"
  by (simp add: dom_def IdentifiersLocked_lookup)

theorem legacy_disabled_hides_legacy_keys_witness:
  "disableLegacyIdentifiers attachmentEndpoint
   \<and> containerID attachmentEndpoint \<noteq> [] \<and> containerName attachmentEndpoint \<noteq> []
   \<and> K8sNamespace attachmentEndpoint \<noteq> [] \<and> K8sPodName attachmentEndpoint \<noteq> []
   \<and> ContainerIdPrefix \<notin> dom (IdentifiersLocked attachmentEndpoint)
   \<and> ContainerNamePrefix \<notin> dom (IdentifiersLocked attachmentEndpoint)
   \<and> PodNamePrefix \<notin> dom (IdentifiersLocked attachmentEndpoint)"
proof -
  have h: "disableLegacyIdentifiers attachmentEndpoint"
    by (simp add: attachmentEndpoint_def)
  show ?thesis
    using h legacy_disabled_hides_legacy_keys [OF h]
    by (simp add: attachmentEndpoint_def)
qed

text \<open>
  C7. The example of the specification: with \<open>containerID = "abcdefghijklmnop"\<close>,
  \<open>containerIfName = "eth0"\<close>, \<open>K8sNamespace = "ns1"\<close>, \<open>K8sPodName = "pod1"\<close>, the
  legacy identifiers disabled and every other identifier field empty or invalid, the map is
  exactly \<open>{CNIAttachmentId: "abcdefghijklmnop:eth0", CEPName: "ns1/pod1-eth0"}\<close> and the
  short container ID is \<open>"abcdefghij"\<close>.
\<close>

theorem spec_example_cniEndpoint:
  "IdentifiersLocked cniEndpoint =
     [CNIAttachmentIdPrefix \<mapsto> ''abcdefghijklmnop:eth0'', CEPNamePrefix \<mapsto> ''ns1/pod1-eth0'']
   \<and> GetShortContainerID (Some cniEndpoint) = Inr ''abcdefghij''"
  by (simp add: IdentifiersLocked_def Let_def cniEndpoint_def invalidAddr_def
      getCNIAttachmentIDLocked_def GetK8sNamespaceAndPodName_def
      GetK8sNamespaceAndCEPName_def GetK8sCEPName_def GetShortContainerID_def
      unconditionalRLock_def getShortContainerIDLocked_def slice_to_def)

subsection \<open>The single derivations\<close>

text \<open>
  C2. \<open>GetK8sCEPName\<close> returns \<open>K8sPodName + "-" + containerIfName\<close> if and only if
  \<open>disableLegacyIdentifiers\<close> is set and both \<open>K8sPodName\<close> and \<open>containerIfName\<close> are
  non-empty; in every other case it returns \<open>K8sPodName\<close> unchanged.
\<close>

theorem GetK8sCEPName_cases:
  "GetK8sCEPName e =
     (if disableLegacyIdentifiers e \<and> K8sPodName e \<noteq> [] \<and> containerIfName e \<noteq> []
      then K8sPodName e @ ''-'' @ containerIfName e
      else K8sPodName e)
   \<and> (GetK8sCEPName e = K8sPodName e @ ''-'' @ containerIfName e \<longleftrightarrow>
        disableLegacyIdentifiers e \<and> K8sPodName e \<noteq> [] \<and> containerIfName e \<noteq> [])"
  by (simp add: GetK8sCEPName_def)

theorem GetK8sCEPName_cases_witness:
  "GetK8sCEPName attachmentEndpoint = ''db-0-net1''
   \<and> GetK8sCEPName legacyEndpoint = ''web-0''
   \<and> GetK8sCEPName (attachmentEndpoint\<lparr>disableLegacyIdentifiers := False\<rparr>) = ''db-0''
   \<and> GetK8sCEPName (attachmentEndpoint\<lparr>K8sPodName := []\<rparr>) = []
   \<and> GetK8sCEPName (attachmentEndpoint\<lparr>containerIfName := []\<rparr>) = ''db-0''"
  using GetK8sCEPName_cases [of attachmentEndpoint]
    GetK8sCEPName_cases [of legacyEndpoint]
    GetK8sCEPName_cases [of "attachmentEndpoint\<lparr>disableLegacyIdentifiers := False\<rparr>"]
    GetK8sCEPName_cases [of "attachmentEndpoint\<lparr>K8sPodName := []\<rparr>"]
    GetK8sCEPName_cases [of "attachmentEndpoint\<lparr>containerIfName := []\<rparr>"]
  by (simp add: attachmentEndpoint_def legacyEndpoint_def)

text \<open>
  C4. The short container ID is \<open>containerID\<close> itself when its length is at most 10, and
  exactly its first 10 characters (bytes, as Go's \<open>len\<close> and slice count them) when it is
  longer; on the reference to an endpoint \<open>e\<close>, \<open>GetShortContainerID\<close> returns what
  \<open>getShortContainerIDLocked\<close> computes.
\<close>

theorem GetShortContainerID_prefix:
  "getShortContainerIDLocked (Some e) =
     Inr (if length (containerID e) \<le> 10 then containerID e else take 10 (containerID e))
   \<and> GetShortContainerID (Some e) =
     Inr (if length (containerID e) \<le> 10 then containerID e else take 10 (containerID e))"
  by (simp add: GetShortContainerID_def unconditionalRLock_def getShortContainerIDLocked_def
      slice_to_def Let_def)

theorem GetShortContainerID_prefix_witness:
  "GetShortContainerID (Some legacyEndpoint) = Inr ''c0ffee''
   \<and> GetShortContainerID (Some (blankEndpoint\<lparr>containerID := ''0123456789''\<rparr>))
       = Inr ''0123456789''
   \<and> GetShortContainerID (Some (blankEndpoint\<lparr>containerID := ''0123456789a''\<rparr>))
       = Inr ''0123456789''
   \<and> GetShortContainerID (Some blankEndpoint) = Inr []"
  using GetShortContainerID_prefix [of legacyEndpoint]
    GetShortContainerID_prefix [of "blankEndpoint\<lparr>containerID := ''0123456789''\<rparr>"]
    GetShortContainerID_prefix [of "blankEndpoint\<lparr>containerID := ''0123456789a''\<rparr>"]
    GetShortContainerID_prefix [of blankEndpoint]
  by (simp add: legacyEndpoint_def blankEndpoint_def)

text \<open>
  C5. The CNI attachment ID, from \<open>getCNIAttachmentIDLocked\<close> and from
  \<open>GetCNIAttachmentID\<close>, is \<open>containerID\<close> when \<open>containerIfName\<close> is the empty string,
  and \<open>containerID + ":" + containerIfName\<close> otherwise.
\<close>

theorem GetCNIAttachmentID_cases:
  "getCNIAttachmentIDLocked e =
     (if containerIfName e = [] then containerID e
      else containerID e @ '':'' @ containerIfName e)
   \<and> GetCNIAttachmentID e =
     (if containerIfName e = [] then containerID e
      else containerID e @ '':'' @ containerIfName e)"
  by (simp add: GetCNIAttachmentID_def getCNIAttachmentIDLocked_def)

theorem GetCNIAttachmentID_cases_witness:
  "GetCNIAttachmentID legacyEndpoint = ''c0ffee''
   \<and> GetCNIAttachmentID attachmentEndpoint = ''0123456789abcdef:net1''
   \<and> GetCNIAttachmentID (blankEndpoint\<lparr>containerIfName := ''eth0''\<rparr>) = '':eth0''"
  using GetCNIAttachmentID_cases [of legacyEndpoint]
    GetCNIAttachmentID_cases [of attachmentEndpoint]
    GetCNIAttachmentID_cases [of "blankEndpoint\<lparr>containerIfName := ''eth0''\<rparr>"]
  by (simp add: legacyEndpoint_def attachmentEndpoint_def blankEndpoint_def)

text \<open>
  C9. \<open>HumanString\<close> returns the namespaced CEP name, \<open>K8sNamespace + "/" +\<close> the CEP
  name, when that string is non-empty, and the fallback \<open>StringID\<close> of the endpoint
  otherwise.
\<close>

theorem HumanString_cases:
  "HumanString e =
     (if K8sNamespace e @ ''/'' @ GetK8sCEPName e \<noteq> []
      then K8sNamespace e @ ''/'' @ GetK8sCEPName e
      else StringID e)
   \<and> GetK8sNamespaceAndCEPName e = K8sNamespace e @ ''/'' @ GetK8sCEPName e"
  by (simp add: HumanString_def Let_def GetK8sNamespaceAndCEPName_def)

theorem HumanString_cases_witness:
  "HumanString attachmentEndpoint = ''prod/db-0-net1''
   \<and> HumanString legacyEndpoint = ''default/web-0''"
  using HumanString_cases [of attachmentEndpoint] HumanString_cases [of legacyEndpoint]
  by (simp add: attachmentEndpoint_def legacyEndpoint_def GetK8sCEPName_def)

text \<open>
  C10. The namespaced pod name and the namespaced CEP name contain the separator \<open>"/"\<close>
  and are never empty, also when \<open>K8sNamespace\<close> and \<open>K8sPodName\<close> are both empty. So
  every map of \<open>IdentifiersLocked\<close> has the key CEPName, it has the key PodName exactly
  when the legacy identifiers are not disabled, and \<open>HumanString\<close> always returns the
  namespaced CEP name, never its fallback.
\<close>

theorem namespaced_names_never_empty:
  "CHR ''/'' \<in> set (GetK8sNamespaceAndPodName e)
   \<and> CHR ''/'' \<in> set (GetK8sNamespaceAndCEPName e)
   \<and> GetK8sNamespaceAndPodName e \<noteq> []
   \<and> GetK8sNamespaceAndCEPName e \<noteq> []
   \<and> CEPNamePrefix \<in> dom (IdentifiersLocked e)
   \<and> (PodNamePrefix \<in> dom (IdentifiersLocked e) \<longleftrightarrow> \<not> disableLegacyIdentifiers e)
   \<and> HumanString e = GetK8sNamespaceAndCEPName e"
  by (simp add: dom_def IdentifiersLocked_lookup HumanString_def Let_def
      GetK8sNamespaceAndPodName_def GetK8sNamespaceAndCEPName_def)

theorem namespaced_names_never_empty_witness:
  "K8sNamespace blankEndpoint = [] \<and> K8sPodName blankEndpoint = []
   \<and> GetK8sNamespaceAndPodName blankEndpoint = ''/''
   \<and> GetK8sNamespaceAndCEPName blankEndpoint = ''/''
   \<and> CEPNamePrefix \<in> dom (IdentifiersLocked blankEndpoint)
   \<and> PodNamePrefix \<in> dom (IdentifiersLocked blankEndpoint)
   \<and> HumanString blankEndpoint = ''/''"
  using namespaced_names_never_empty [of blankEndpoint]
  by (simp add: blankEndpoint_def GetK8sNamespaceAndPodName_def
      GetK8sNamespaceAndCEPName_def GetK8sCEPName_def)

subsection \<open>Failure\<close>

text \<open>
  C6. \<open>Identifiers\<close> is the operation that can fail. It returns the error
  \<open>EndpointNotAlive\<close> exactly when the endpoint is not alive, and then it returns the nil
  map and a result that no field of the record enters: any two endpoints that are not
  alive give the same result. On an alive endpoint it returns the map of
  \<open>IdentifiersLocked\<close> and no error. The other operations return plain values; the one
  expression among them that could panic, the slice in \<open>getShortContainerIDLocked\<close>,
  never does, for any reference \<open>p\<close>.
\<close>

theorem Identifiers_liveness_gate:
  "Identifiers e =
     (if liveness e = Alive then (Some (IdentifiersLocked e), None)
      else (None, Some EndpointNotAlive))
   \<and> (snd (Identifiers e) = Some EndpointNotAlive \<longleftrightarrow> liveness e = NotAlive)
   \<and> (liveness e = NotAlive \<and> liveness e' = NotAlive \<longrightarrow> Identifiers e = Identifiers e')
   \<and> (\<exists>s. getShortContainerIDLocked p = Inr s)"
  by (cases "liveness e"; cases "liveness e'"; cases p)
     (simp_all add: Identifiers_def rlockAlive_def getShortContainerIDLocked_def
        slice_to_def Let_def)

theorem Identifiers_liveness_gate_witness:
  "liveness blankEndpoint = NotAlive
   \<and> liveness (legacyEndpoint\<lparr>liveness := NotAlive\<rparr>) = NotAlive
   \<and> Identifiers blankEndpoint = (None, Some EndpointNotAlive)
   \<and> Identifiers (legacyEndpoint\<lparr>liveness := NotAlive\<rparr>) = Identifiers blankEndpoint
   \<and> liveness legacyEndpoint = Alive
   \<and> Identifiers legacyEndpoint = (Some (IdentifiersLocked legacyEndpoint), None)"
  using Identifiers_liveness_gate [of blankEndpoint blankEndpoint None]
    Identifiers_liveness_gate [of "legacyEndpoint\<lparr>liveness := NotAlive\<rparr>" blankEndpoint None]
    Identifiers_liveness_gate [of legacyEndpoint blankEndpoint None]
  by (simp add: blankEndpoint_def legacyEndpoint_def)




end
